theory Spec2Isabelle
  imports Complex_Main "HOL-Library.Log_Nat"
begin

section \<open>Numbers of the notebook\<close>

text \<open>
  The notebook \<^verbatim>\<open>crypto_research/malz_vol_smile_approximation.ipynb\<close> computes with
  float64 values. They are embedded twice.

  In \<open>pyfloat\<close> they are the real numbers extended by the one special value the
  notebook itself tests for (\<^verbatim>\<open>math.isnan\<close>): not-a-number. Rounding error, infinities
  and overflow of float64 are not part of \<open>pyfloat\<close>, so an equation of \<open>pyfloat\<close> is an
  equation of real arithmetic. Not-a-number is absorbing for every arithmetic operation,
  as in IEEE arithmetic.

  In \<open>f64\<close>, further below, every operation rounds its exact result to binary64 and
  overflows to an infinity. The properties of the evaluator that compare two computed
  floats for equality are stated there.
\<close>

datatype pyfloat = NaN | Fin real

fun isnan :: "pyfloat \<Rightarrow> bool" where
  "isnan NaN = True"
| "isnan (Fin x) = False"

instantiation pyfloat :: "{zero, one, plus, minus, uminus, times, inverse}"
begin

definition zero_pyfloat :: pyfloat where
  "zero_pyfloat = Fin 0"

definition one_pyfloat :: pyfloat where
  "one_pyfloat = Fin 1"

fun plus_pyfloat :: "pyfloat \<Rightarrow> pyfloat \<Rightarrow> pyfloat" where
  "plus_pyfloat (Fin a) (Fin b) = Fin (a + b)"
| "plus_pyfloat _ _ = NaN"

fun minus_pyfloat :: "pyfloat \<Rightarrow> pyfloat \<Rightarrow> pyfloat" where
  "minus_pyfloat (Fin a) (Fin b) = Fin (a - b)"
| "minus_pyfloat _ _ = NaN"

fun uminus_pyfloat :: "pyfloat \<Rightarrow> pyfloat" where
  "uminus_pyfloat (Fin a) = Fin (- a)"
| "uminus_pyfloat NaN = NaN"

fun times_pyfloat :: "pyfloat \<Rightarrow> pyfloat \<Rightarrow> pyfloat" where
  "times_pyfloat (Fin a) (Fin b) = Fin (a * b)"
| "times_pyfloat _ _ = NaN"

text \<open>
  The notebook divides by the constant 2 only. A zero divisor (infinity or
  not-a-number in numpy) is outside the embedded numbers and is given as not-a-number.
\<close>

fun divide_pyfloat :: "pyfloat \<Rightarrow> pyfloat \<Rightarrow> pyfloat" where
  "divide_pyfloat (Fin a) (Fin b) = (if b = 0 then NaN else Fin (a / b))"
| "divide_pyfloat _ _ = NaN"

fun inverse_pyfloat :: "pyfloat \<Rightarrow> pyfloat" where
  "inverse_pyfloat (Fin a) = (if a = 0 then NaN else Fin (inverse a))"
| "inverse_pyfloat NaN = NaN"

instance ..

end

text \<open>Addition is associative also where not-a-number takes part, so numerals exist.\<close>

instance pyfloat :: semigroup_add
  by standard (rename_tac x y z, case_tac x; case_tac y; case_tac z; simp)

instance pyfloat :: numeral ..

instance pyfloat :: power ..

section \<open>Rounding to the nearest integer\<close>

text \<open>
  Python's \<^verbatim>\<open>round(x)\<close> and numpy's \<^verbatim>\<open>rint\<close> round to the nearest integer, a tie to the
  even neighbour.
\<close>

definition round_half_even :: "real \<Rightarrow> int" where
  "round_half_even x =
     (let f = \<lfloor>x\<rfloor>; r = x - of_int f
      in if r < 1 / 2 then f else if 1 / 2 < r then f + 1
         else if even f then f else f + 1)"

section \<open>Binary64 arithmetic\<close>

text \<open>
  A float64 is not-a-number, an infinity with its sign (\<open>True\<close> for the negative one) or
  a number. \<open>Float x\<close> is written for every real \<open>x\<close>; the values a float64 can hold are
  those that rounding leaves alone, \<open>round64 x = Float x\<close>. The two zeros are one value:
  they compare equal in Python and no operation of the evaluator tells them apart.
\<close>

datatype f64 = NotANumber | Infinity bool | Float real

text \<open>Powers of two with an integer exponent.\<close>

definition pow2 :: "int \<Rightarrow> real" where
  "pow2 e = (if 0 \<le> e then 2 ^ nat e else 1 / 2 ^ nat (- e))"

text \<open>The binary exponent of a positive number: the \<open>e\<close> with \<open>2\<^sup>e \<le> x < 2\<^sup>e\<^sup>+\<^sup>1\<close>.\<close>

definition ilog2 :: "real \<Rightarrow> int" where
  "ilog2 x = (if 1 \<le> x then bitlen \<lfloor>x\<rfloor> - 1 else - bitlen (\<lceil>1 / x\<rceil> - 1))"

text \<open>
  Rounding to nearest, ties to even, with a significand of 53 bits: the unit in the last
  place is \<open>2\<^sup>e\<^sup>-\<^sup>5\<^sup>2\<close>, the exponent \<open>e\<close> not below -1022 (subnormal numbers);
  a result of magnitude \<open>2\<^sup>1\<^sup>0\<^sup>2\<^sup>4\<close> or more is an infinity.
\<close>

definition round64 :: "real \<Rightarrow> f64" where
  "round64 x =
     (if x = 0 then Float 0
      else let e = max (ilog2 \<bar>x\<bar>) (- 1022);
               ulp = pow2 (e - 52);
               y = of_int (round_half_even (x / ulp)) * ulp
           in if 2 ^ 1024 \<le> \<bar>y\<bar> then Infinity (x < 0) else Float y)"

text \<open>
  The operations of numpy's float64 scalars: no exception is raised, an overflow is an
  infinity, and infinity times zero and the difference of equal infinities are
  not-a-number.
\<close>

instantiation f64 :: "{plus, minus, uminus, times}"
begin

fun uminus_f64 :: "f64 \<Rightarrow> f64" where
  "uminus_f64 (Float a) = Float (- a)"
| "uminus_f64 (Infinity s) = Infinity (\<not> s)"
| "uminus_f64 NotANumber = NotANumber"

fun plus_f64 :: "f64 \<Rightarrow> f64 \<Rightarrow> f64" where
  "plus_f64 (Float a) (Float b) = round64 (a + b)"
| "plus_f64 (Float a) (Infinity t) = Infinity t"
| "plus_f64 (Infinity s) (Float b) = Infinity s"
| "plus_f64 (Infinity s) (Infinity t) = (if s = t then Infinity s else NotANumber)"
| "plus_f64 _ _ = NotANumber"

definition minus_f64 :: "f64 \<Rightarrow> f64 \<Rightarrow> f64" where
  "minus_f64 x y = x + (- y)"

fun times_f64 :: "f64 \<Rightarrow> f64 \<Rightarrow> f64" where
  "times_f64 (Float a) (Float b) = round64 (a * b)"
| "times_f64 (Float a) (Infinity t) = (if a = 0 then NotANumber else Infinity (t \<noteq> (a < 0)))"
| "times_f64 (Infinity s) (Float b) = (if b = 0 then NotANumber else Infinity (s \<noteq> (b < 0)))"
| "times_f64 (Infinity s) (Infinity t) = Infinity (s \<noteq> t)"
| "times_f64 _ _ = NotANumber"

instance ..

end

text \<open>
  \<^verbatim>\<open>x**2\<close>, which calls the \<^verbatim>\<open>pow\<close> of the C library: taken as the correctly rounded
  square, the same for \<open>x\<close> and \<open>- x\<close>; an overflowing square is an infinity, as for the
  float64 scalars of numpy.
\<close>

fun square64 :: "f64 \<Rightarrow> f64" where
  "square64 (Float a) = round64 (a * a)"
| "square64 (Infinity s) = Infinity False"
| "square64 NotANumber = NotANumber"

section \<open>The Malz approximation\<close>

text \<open>
  \<^verbatim>\<open>
  def put_delta_iv(delta, rr, fly, atm):
      '''Malz Approximation: approximates the volatility smile'''
      return(atm + 2*rr*(delta-0.50) + 16*fly*((delta-0.50))**2)
  \<close>
\<close>

definition put_delta_iv :: "pyfloat \<Rightarrow> pyfloat \<Rightarrow> pyfloat \<Rightarrow> pyfloat \<Rightarrow> pyfloat" where
  "put_delta_iv delta rr fly atm =
     atm + 2 * rr * (delta - 0.50) + 16 * fly * ((delta - 0.50)) ^ 2"

text \<open>
  The same expression in binary64, operation for operation: the literals 2, 0.50 and 16
  are float64 values, and the sum associates to the left.
\<close>

definition put_delta_iv_f64 :: "f64 \<Rightarrow> f64 \<Rightarrow> f64 \<Rightarrow> f64 \<Rightarrow> f64" where
  "put_delta_iv_f64 delta rr fly atm =
     atm + Float 2 * rr * (delta - Float 0.50)
       + Float 16 * fly * square64 (delta - Float 0.50)"

section \<open>The quote snapshot\<close>

text \<open>
  A row of the data frame after the columns have been selected and the delta of the
  greeks has been joined on (the first statements of the loading cell). Every cell of a
  row holds a number; not-a-number arises later, from the mean of an empty selection.
\<close>

record quote =
  option_type :: string
  instrument_name :: string
  strike :: real
  mark_iv :: real
  bid_iv :: real
  ask_iv :: real
  underlying_price :: real
  expiration_timestamp :: int
  delta :: real

text \<open>The frame after \<^verbatim>\<open>df['mid_iv'] = (df.bid_iv + df.ask_iv)/2\<close>.\<close>

record mid_quote = quote +
  mid_iv :: real

text \<open>
  The exceptions the statements of the notebook can raise: \<^verbatim>\<open>IndexError\<close> from
  \<^verbatim>\<open>maturities[0]\<close> and \<^verbatim>\<open>ValueError\<close> from \<^verbatim>\<open>round\<close> of not-a-number.
  The notebook defines and raises no exception of its own, so the error kinds named in its
  specification have no counterpart among the results of the functions below; they are
  listed as \<open>spec_error\<close> to state what the functions do not return.
\<close>

datatype spec_error = EmptyInputError | MissingExpiryError | InsufficientDataError
  | InvalidDomainError

datatype py_error = IndexError | ValueError | Raised spec_error

section \<open>Rounding of floats and of series\<close>

text \<open>
  \<^verbatim>\<open>round(x)\<close> of a float: an int, and \<^verbatim>\<open>ValueError\<close> for not-a-number. The notebook
  rounds the mean of a frame that the selection of the maturity has left non-empty, so
  there the argument is a number.
\<close>

definition py_round :: "pyfloat \<Rightarrow> py_error + int" where
  "py_round x = (case x of NaN \<Rightarrow> Inl ValueError | Fin v \<Rightarrow> Inr (round_half_even v))"

text \<open>
  \<^verbatim>\<open>Series.round(decimals)\<close> is numpy's \<^verbatim>\<open>around\<close>: scale by the power of ten, \<^verbatim>\<open>rint\<close>,
  scale back; for negative \<^verbatim>\<open>decimals\<close> the scaling divides first.
\<close>

definition np_round :: "real \<Rightarrow> int \<Rightarrow> real" where
  "np_round x decimals =
     (if 0 \<le> decimals
      then of_int (round_half_even (x * 10 ^ nat decimals)) / 10 ^ nat decimals
      else of_int (round_half_even (x / 10 ^ nat (- decimals))) * 10 ^ nat (- decimals))"

section \<open>Loading cell: one maturity, mid volatility, delta buckets\<close>

text \<open>
  \<^verbatim>\<open>
  # Select earliest maturity option contract for our analysis
  maturities = list(set(df.expiration_timestamp))
  df = df[df.expiration_timestamp==maturities[0]]
  \<close>
  The order in which \<^verbatim>\<open>list\<close> enumerates a \<^verbatim>\<open>set\<close> is the order of the slots of
  CPython's hash table, which the language leaves open. It is a parameter of the
  model, \<open>list_set\<close>, applied to the column; \<open>enumerates\<close> is what the language
  promises of it: every value of the column once.
\<close>

definition enumerates :: "(int list \<Rightarrow> int list) \<Rightarrow> int list \<Rightarrow> bool" where
  "enumerates list_set column \<longleftrightarrow>
     distinct (list_set column) \<and> set (list_set column) = set column"

definition maturities :: "(int list \<Rightarrow> int list) \<Rightarrow> quote list \<Rightarrow> int list" where
  "maturities list_set df = list_set (map expiration_timestamp df)"

definition select_maturity :: "(int list \<Rightarrow> int list) \<Rightarrow> quote list \<Rightarrow> py_error + quote list" where
  "select_maturity list_set df =
     (case maturities list_set df of
        [] \<Rightarrow> Inl IndexError
      | m # _ \<Rightarrow> Inr (filter (\<lambda>q. expiration_timestamp q = m) df))"

text \<open>
  \<^verbatim>\<open>
  df['mid_iv'] = (df.bid_iv + df.ask_iv)/2
  calls = df[df.option_type == 'call']
  puts = df[df.option_type == 'put']
  calls['delta'] = ((calls.delta)*100).round(-1)
  puts['delta'] = (abs(puts.delta)*100).round(-1)
  \<close>
\<close>

definition with_mid_iv :: "quote \<Rightarrow> mid_quote" where
  "with_mid_iv q = quote.extend q (mid_quote.fields ((bid_iv q + ask_iv q) / 2))"

definition calls :: "mid_quote list \<Rightarrow> mid_quote list" where
  "calls df =
     map (\<lambda>q. q\<lparr>delta := np_round (delta q * 100) (- 1)\<rparr>)
       (filter (\<lambda>q. option_type q = ''call'') df)"

definition puts :: "mid_quote list \<Rightarrow> mid_quote list" where
  "puts df =
     map (\<lambda>q. q\<lparr>delta := np_round (\<bar>delta q\<bar> * 100) (- 1)\<rparr>)
       (filter (\<lambda>q. option_type q = ''put'') df)"

text \<open>The whole cell: the frame of the selected maturity with its mid volatilities.\<close>

definition quote_normalizer :: "(int list \<Rightarrow> int list) \<Rightarrow> quote list \<Rightarrow> py_error + mid_quote list" where
  "quote_normalizer list_set quotes =
     (case select_maturity list_set quotes of
        Inl e \<Rightarrow> Inl e
      | Inr df \<Rightarrow> Inr (map with_mid_iv df))"

section \<open>Marker cell\<close>

text \<open>\<^verbatim>\<open>Series.mean()\<close>: not-a-number for an empty series.\<close>

definition pd_mean :: "real list \<Rightarrow> pyfloat" where
  "pd_mean xs = (if xs = [] then NaN else Fin (sum_list xs / real (length xs)))"

text \<open>
  \<^verbatim>\<open>
  # Calculate ATM volatility - note: ATM is calculated based on: (current average_price +/- $10)
  avg_price = round(df.underlying_price.mean())
  atm_iv = df[(df.strike.values >= avg_price -10) & (df.strike.values <= avg_price +10)].mid_iv.mean()
  \<close>
\<close>

definition avg_price :: "mid_quote list \<Rightarrow> py_error + int" where
  "avg_price df = py_round (pd_mean (map underlying_price df))"

definition atm_iv :: "mid_quote list \<Rightarrow> py_error + pyfloat" where
  "atm_iv df =
     (case avg_price df of
        Inl e \<Rightarrow> Inl e
      | Inr a \<Rightarrow>
          Inr (pd_mean (map mid_iv
            (filter (\<lambda>q. of_int (a - 10) \<le> strike q \<and> strike q \<le> of_int (a + 10)) df))))"

text \<open>
  \<^verbatim>\<open>
  # Select options with average of 25 delta (ranges from 20 to 30)
  put_25D_iv = puts[(puts.delta == 20) | (puts.delta == 30)].mid_iv.mean()
  call_25D_iv = calls[(calls.delta == 20) | (calls.delta == 30)].mid_iv.mean()
  \<close>
\<close>

definition put_25D_iv :: "mid_quote list \<Rightarrow> pyfloat" where
  "put_25D_iv df =
     pd_mean (map mid_iv (filter (\<lambda>q. delta q = 20 \<or> delta q = 30) (puts df)))"

definition call_25D_iv :: "mid_quote list \<Rightarrow> pyfloat" where
  "call_25D_iv df =
     pd_mean (map mid_iv (filter (\<lambda>q. delta q = 20 \<or> delta q = 30) (calls df)))"

text \<open>
  \<^verbatim>\<open>
  rr25D_iv = call_25D_iv - put_25D_iv
  fly25D_iv = (call_25D_iv + put_25D_iv)/2 - atm_iv
  \<close>
  as functions of the markers they read.
\<close>

definition rr25D_iv :: "pyfloat \<Rightarrow> pyfloat \<Rightarrow> pyfloat" where
  "rr25D_iv call25 put25 = call25 - put25"

definition fly25D_iv :: "pyfloat \<Rightarrow> pyfloat \<Rightarrow> pyfloat \<Rightarrow> pyfloat" where
  "fly25D_iv call25 put25 atm = (call25 + put25) / 2 - atm"

section \<open>Sampling cell\<close>

text \<open>
  \<^verbatim>\<open>np.arange(start, stop, step)\<close>: the \<open>\<lceil>(stop - start) / step\<rceil>\<close> values
  \<open>start + i * step\<close>.
\<close>

definition np_arange :: "real \<Rightarrow> real \<Rightarrow> real \<Rightarrow> real list" where
  "np_arange start stop step =
     map (\<lambda>i. start + real i * step) [0..<nat \<lceil>(stop - start) / step\<rceil>]"

text \<open>The grid \<^verbatim>\<open>np.arange(0.01, 1, 0.01)\<close> of the sampling and of the plot.\<close>

definition delta_grid :: "real list" where
  "delta_grid = np_arange 0.01 1 0.01"

text \<open>
  \<^verbatim>\<open>
  put_delta_aprx = [put_delta_iv(i, rr25D_iv, fly25D_iv, atm_iv) for i in np.arange(0.01, 1, 0.01)]
  put_delta_aprx = [0 if math.isnan(x) else x for x in put_delta_aprx]
  \<close>
\<close>

definition put_delta_raw :: "pyfloat \<Rightarrow> pyfloat \<Rightarrow> pyfloat \<Rightarrow> pyfloat list" where
  "put_delta_raw rr fly atm =
     map (\<lambda>i. put_delta_iv (Fin i) rr fly atm) delta_grid"

definition put_delta_aprx :: "pyfloat \<Rightarrow> pyfloat \<Rightarrow> pyfloat \<Rightarrow> pyfloat list" where
  "put_delta_aprx rr fly atm =
     map (\<lambda>x. if isnan x then 0 else x) (put_delta_raw rr fly atm)"

text \<open>
  The points of the curve as the last cell plots them:
  \<^verbatim>\<open>plt.plot(np.arange(0.01, 1, 0.01), put_delta_aprx, ...)\<close>.
\<close>

definition smile_curve :: "pyfloat \<Rightarrow> pyfloat \<Rightarrow> pyfloat \<Rightarrow> (real \<times> pyfloat) list" where
  "smile_curve rr fly atm = zip delta_grid (put_delta_aprx rr fly atm)"

text \<open>The cells in sequence, from the loaded frame to the sampled curve.\<close>

definition notebook :: "(int list \<Rightarrow> int list) \<Rightarrow> quote list \<Rightarrow> py_error + pyfloat list" where
  "notebook list_set quotes =
     (case quote_normalizer list_set quotes of
        Inl e \<Rightarrow> Inl e
      | Inr df \<Rightarrow>
          (case atm_iv df of
             Inl e \<Rightarrow> Inl e
           | Inr atm \<Rightarrow>
               Inr (put_delta_aprx
                      (rr25D_iv (call_25D_iv df) (put_25D_iv df))
                      (fly25D_iv (call_25D_iv df) (put_25D_iv df) atm)
                      atm)))"

section \<open>The at-the-money marker as its specification words it\<close>


section \<open>Snapshots\<close>

text \<open>
  Two rows of one maturity, 27 March 2020 08:00 UTC, with the underlying at 6510.4:
  a call struck at 6500 and a put struck at 6520.
\<close>

definition call_6500 :: quote where
  "call_6500 =
     \<lparr>option_type = ''call'', instrument_name = ''BTC-27MAR20-6500-C'', strike = 6500,
      mark_iv = 70, bid_iv = 68, ask_iv = 72, underlying_price = 6510.4,
      expiration_timestamp = 1585296000000, delta = 0.52\<rparr>"

definition put_6520 :: quote where
  "put_6520 =
     \<lparr>option_type = ''put'', instrument_name = ''BTC-27MAR20-6520-P'', strike = 6520,
      mark_iv = 80, bid_iv = 78, ask_iv = 82, underlying_price = 6510.4,
      expiration_timestamp = 1585296000000, delta = - 0.48\<rparr>"

definition snapshot :: "quote list" where
  "snapshot = [call_6500, put_6520]"

text \<open>
  Two rows of two maturities, the later one (3 April 2020 08:00 UTC) in the first row.
  Both timestamps are multiples of 8, so in CPython's table of 8 slots both hash to
  slot 0; the first row takes it and the second is probed into a later slot, and
  \<^verbatim>\<open>list(set(df.expiration_timestamp))\<close> is \<^verbatim>\<open>[1585900800000, 1585296000000]\<close>.
\<close>

definition call_apr :: quote where
  "call_apr =
     \<lparr>option_type = ''call'', instrument_name = ''BTC-3APR20-6500-C'', strike = 6500,
      mark_iv = 75, bid_iv = 73, ask_iv = 77, underlying_price = 6510.4,
      expiration_timestamp = 1585900800000, delta = 0.52\<rparr>"

definition two_maturities :: "quote list" where
  "two_maturities = [call_apr, call_6500]"

definition cpython_two_maturities :: "int list \<Rightarrow> int list" where
  "cpython_two_maturities column = [1585900800000, 1585296000000]"

section \<open>Arithmetic of the embedded numbers\<close>

lemma Fin_numeral: "(numeral n :: pyfloat) = Fin (numeral n)"
proof (induction n)
  case One
  show ?case by (simp add: one_pyfloat_def)
next
  case (Bit0 n)
  have "(numeral (num.Bit0 n) :: pyfloat) = numeral n + numeral n"
    by (simp only: numeral_Bit0)
  also have "\<dots> = Fin (numeral n + numeral n)"
    by (simp add: Bit0.IH)
  finally show ?case by (simp only: numeral_Bit0)
next
  case (Bit1 n)
  have "(numeral (num.Bit1 n) :: pyfloat) = numeral n + numeral n + 1"
    by (simp only: numeral_Bit1)
  also have "\<dots> = Fin (numeral n + numeral n + 1)"
    by (simp add: Bit1.IH one_pyfloat_def)
  finally show ?case by (simp only: numeral_Bit1)
qed

lemma Fin_power: "Fin a ^ n = Fin (a ^ n)"
  by (induction n) (simp_all add: one_pyfloat_def)


lemma put_delta_iv_NaN:
  "isnan rr \<or> isnan fly \<or> isnan atm \<Longrightarrow> put_delta_iv d rr fly atm = NaN"
  by (cases d; cases rr; cases fly; cases atm)
     (simp_all add: put_delta_iv_def Fin_numeral Fin_power)

section \<open>Properties of the Smile Evaluator\<close>


section \<open>Rounding to binary64\<close>

lemma pow2_pos: "0 < pow2 e"
  by (simp add: pow2_def)

lemma pow2_powr: "pow2 e = 2 powr (real_of_int e)"
proof (cases "0 \<le> e")
  case True
  then show ?thesis
    by (simp add: pow2_def powr_realpow [symmetric])
next
  case False
  have "(2::real) ^ nat (- e) = 2 powr real (nat (- e))"
    by (simp add: powr_realpow)
  also have "real (nat (- e)) = - real_of_int e"
    using False by simp
  finally have "pow2 e = 1 / 2 powr (- real_of_int e)"
    using False by (simp add: pow2_def)
  then show ?thesis
    by (simp add: powr_minus field_simps)
qed

lemma pow2_mono: "a \<le> b \<Longrightarrow> pow2 a \<le> pow2 b"
  by (simp add: pow2_powr)

lemma pow2_less_iff: "pow2 a < pow2 b \<longleftrightarrow> a < b"
  by (simp add: pow2_powr)

text \<open>\<open>ilog2\<close> is the binary exponent.\<close>

lemma ilog2_bounds:
  assumes "0 < x"
  shows "pow2 (ilog2 x) \<le> x \<and> x < pow2 (ilog2 x + 1)"
proof (cases "1 \<le> x")
  case True
  then have pos: "0 < \<lfloor>x\<rfloor>" by linarith
  let ?b = "bitlen \<lfloor>x\<rfloor>"
  from bitlen_bounds [OF pos]
  have lo: "2 ^ nat (?b - 1) \<le> \<lfloor>x\<rfloor>" and hi: "\<lfloor>x\<rfloor> < 2 ^ nat ?b"
    by simp_all
  have b1: "1 \<le> ?b"
    using pos by (simp add: bitlen_alt_def)
  have l: "(2::real) ^ nat (?b - 1) \<le> x"
    using lo le_floor_iff [of "2 ^ nat (?b - 1)" x] by simp
  have h: "x < (2::real) ^ nat ?b"
    using hi floor_less_iff [of x "2 ^ nat ?b"] by simp
  from True b1 l h show ?thesis
    by (simp add: ilog2_def pow2_def)
next
  case False
  with assms have x: "0 < x" "x < 1" by simp_all
  let ?n = "\<lceil>1 / x\<rceil>"
  let ?b = "bitlen (?n - 1)"
  have inv: "1 < 1 / x" using x by simp
  then have n2: "2 \<le> ?n" by linarith
  then have pos: "0 < ?n - 1" by simp
  from bitlen_bounds [OF pos]
  have lo: "2 ^ nat (?b - 1) \<le> ?n - 1" and hi: "?n - 1 < 2 ^ nat ?b"
    by simp_all
  have b1: "1 \<le> ?b"
    using pos by (simp add: bitlen_alt_def)
  from hi have "?n \<le> 2 ^ nat ?b" by simp
  then have "1 / x \<le> 2 ^ nat ?b"
    using ceiling_le_iff [of "1 / x" "2 ^ nat ?b"] by simp
  then have l: "1 / 2 ^ nat ?b \<le> x"
    using x by (simp add: field_simps)
  from lo have "2 ^ nat (?b - 1) < ?n" by simp
  then have "(2::real) ^ nat (?b - 1) < 1 / x"
    using less_ceiling_iff [of "2 ^ nat (?b - 1)" "1 / x"] by simp
  then have h: "x < 1 / 2 ^ nat (?b - 1)"
    using x by (simp add: field_simps)
  have e: "ilog2 x = - ?b"
    using False by (simp add: ilog2_def)
  have p1: "pow2 (- ?b) = 1 / 2 ^ nat ?b"
    using b1 by (simp add: pow2_def)
  have p2: "pow2 (- ?b + 1) = 1 / 2 ^ nat (?b - 1)"
  proof (cases "?b = 1")
    case True
    then show ?thesis by (simp add: pow2_def)
  next
    case False
    with b1 have "\<not> 0 \<le> - ?b + 1" by simp
    moreover have "nat (- (- ?b + 1)) = nat (?b - 1)" by simp
    ultimately show ?thesis by (simp only: pow2_def if_False)
  qed
  from l h show ?thesis
    unfolding e p1 p2 by simp
qed

lemma ilog2_eq:
  assumes "pow2 e \<le> x" and "x < pow2 (e + 1)"
  shows "ilog2 x = e"
proof -
  have "0 < x" using assms(1) pow2_pos [of e] by linarith
  from ilog2_bounds [OF this]
  have "pow2 (ilog2 x) \<le> x" "x < pow2 (ilog2 x + 1)" by simp_all
  with assms have "pow2 (ilog2 x) < pow2 (e + 1)" and "pow2 e < pow2 (ilog2 x + 1)"
    by simp_all
  then show ?thesis
    by (simp add: pow2_less_iff)
qed

text \<open>\<open>round_half_even\<close> is a nearest integer.\<close>

lemma round_half_even_error: "\<bar>of_int (round_half_even z) - z\<bar> \<le> 1 / 2"
  unfolding round_half_even_def Let_def by (auto simp: abs_le_iff)

lemma round64_zero: "round64 0 = Float 0"
  by (simp add: round64_def)

text \<open>Rounding a number whose binary exponent is known.\<close>

lemma round64_eval:
  assumes "pow2 e \<le> \<bar>x\<bar>" and "\<bar>x\<bar> < pow2 (e + 1)" and "- 1022 \<le> e"
  shows "round64 x =
     (if 2 ^ 1024 \<le> \<bar>of_int (round_half_even (x / pow2 (e - 52))) * pow2 (e - 52)\<bar>
      then Infinity (x < 0)
      else Float (of_int (round_half_even (x / pow2 (e - 52))) * pow2 (e - 52)))"
proof -
  have "x \<noteq> 0" using assms(1) pow2_pos [of e] by auto
  moreover have "max (ilog2 \<bar>x\<bar>) (- 1022) = e"
    using ilog2_eq [OF assms(1,2)] assms(3) by simp
  ultimately show ?thesis
    by (simp add: round64_def Let_def)
qed

text \<open>Below \<open>2\<^sup>1\<^sup>0\<^sup>2\<^sup>3\<close> in magnitude nothing overflows.\<close>

lemma round64_finite:
  assumes "\<bar>x\<bar> < 2 ^ 1023"
  shows "\<exists>y. round64 x = Float y"
proof (cases "x = 0")
  case True
  then show ?thesis by (simp add: round64_def)
next
  case False
  define e where "e = max (ilog2 \<bar>x\<bar>) (- 1022)"
  define u where "u = pow2 (e - 52)"
  define m where "m = round_half_even (x / u)"
  have upos: "0 < u" by (simp add: u_def pow2_pos)
  from False have "0 < \<bar>x\<bar>" by simp
  from ilog2_bounds [OF this] assms have "pow2 (ilog2 \<bar>x\<bar>) < pow2 1023"
    by (simp add: pow2_def)
  then have "ilog2 \<bar>x\<bar> < 1023" by (simp only: pow2_less_iff)
  then have "e - 52 \<le> 970" by (simp add: e_def)
  from pow2_mono [OF this] have u970: "u \<le> 2 ^ 970"
    by (simp add: u_def pow2_def)
  have "\<bar>of_int m - x / u\<bar> \<le> 1 / 2"
    unfolding m_def by (rule round_half_even_error)
  then have "\<bar>of_int m - x / u\<bar> * u \<le> 1 / 2 * u"
    using upos by (simp only: mult_le_cancel_right_pos)
  moreover have "\<bar>of_int m * u - x\<bar> = \<bar>(of_int m - x / u) * u\<bar>"
    using upos by (simp add: left_diff_distrib)
  then have "\<bar>of_int m - x / u\<bar> * u = \<bar>of_int m * u - x\<bar>"
    using upos by (simp add: abs_mult)
  ultimately have "\<bar>of_int m * u - x\<bar> \<le> u / 2" by simp
  then have "\<bar>of_int m * u\<bar> \<le> \<bar>x\<bar> + u / 2" by linarith
  also have "\<dots> < 2 ^ 1023 + 2 ^ 970 / 2" using assms u970 by linarith
  also have "\<dots> < (2::real) ^ 1024" by simp
  finally have "\<not> 2 ^ 1024 \<le> \<bar>of_int m * u\<bar>" by simp
  with False show ?thesis
    by (simp add: round64_def Let_def e_def [symmetric] u_def [symmetric] m_def [symmetric])
qed

section \<open>The evaluator at the money, in binary64\<close>

lemma offset_at_the_money: "Float 0.5 - Float 0.50 = Float 0"
  by (simp add: minus_f64_def round64_zero)

lemma Float_times_zero: "Float y * Float 0 = Float 0"
  by (simp add: round64_zero)

lemma round64_70: "round64 70 = Float 70"
  by (simp add: round64_eval [where e = 6] pow2_def round_half_even_def)

lemma round64_2_1023: "round64 (2 ^ 1023) = Float (2 ^ 1023)"
  by (simp add: round64_eval [where e = 1023] pow2_def round_half_even_def)

lemma round64_2_1024: "round64 (2 * 2 ^ 1023) = Infinity False"
  by (simp add: round64_eval [where e = 1024] pow2_def round_half_even_def)

text \<open>
  C8, as the notebook has it. For every float64 \<open>atm\<close> and all \<open>rr\<close> and \<open>fly\<close> of
  magnitude below \<open>2\<^sup>1\<^sup>0\<^sup>2\<^sup>2\<close> and \<open>2\<^sup>1\<^sup>0\<^sup>1\<^sup>9\<close>, so that neither \<open>2 * rr\<close> nor
  \<open>16 * fly\<close> overflows, the evaluator at delta = 0.5 returns exactly \<open>atm\<close>.
\<close>

theorem put_delta_iv_f64_at_the_money:
  assumes "round64 atm = Float atm" and "\<bar>rr\<bar> < 2 ^ 1022" and "\<bar>fly\<bar> < 2 ^ 1019"
  shows "put_delta_iv_f64 (Float 0.5) (Float rr) (Float fly) (Float atm) = Float atm"
proof -
  from assms(2) have "\<bar>2 * rr\<bar> < 2 ^ 1023" by simp
  from round64_finite [OF this] obtain a where a: "Float 2 * Float rr = Float a"
    by auto
  from assms(3) have "\<bar>16 * fly\<bar> < 2 ^ 1023" by simp
  from round64_finite [OF this] obtain b where b: "Float 16 * Float fly = Float b"
    by auto
  have sq: "square64 (Float 0) = Float 0"
    by (simp add: round64_zero)
  have atm: "Float atm + Float 0 = Float atm"
    using assms(1) by simp
  show ?thesis
    unfolding put_delta_iv_f64_def offset_at_the_money a b sq Float_times_zero atm ..
qed

text \<open>C8, witness: risk reversal -0.06, butterfly 3, at-the-money volatility 70.\<close>

theorem put_delta_iv_f64_at_the_money_witness:
  "round64 70 = Float 70 \<and> \<bar>- 6 / 100 :: real\<bar> < 2 ^ 1022 \<and> \<bar>3 :: real\<bar> < 2 ^ 1019 \<and>
   put_delta_iv_f64 (Float 0.5) (Float (- 6 / 100)) (Float 3) (Float 70) = Float 70"
  using put_delta_iv_f64_at_the_money [of 70 "- 6 / 100" 3] by (simp add: round64_70)

text \<open>
  C8, counterexample: the risk reversal \<open>2\<^sup>1\<^sup>0\<^sup>2\<^sup>3\<close> is a float64, its double is an
  infinity, the infinity times the offset 0.0 is not-a-number, and so is the result:
  not the at-the-money volatility 70.
\<close>

theorem put_delta_iv_f64_overflow_counterexample:
  "round64 (2 ^ 1023) = Float (2 ^ 1023) \<and> round64 70 = Float 70 \<and>
   Float 2 * Float (2 ^ 1023) = Infinity False \<and>
   put_delta_iv_f64 (Float 0.5) (Float (2 ^ 1023)) (Float 0) (Float 70) = NotANumber"
proof -
  have ovf: "Float 2 * Float (2 ^ 1023) = Infinity False"
    unfolding times_f64.simps by (rule round64_2_1024)
  have nan: "put_delta_iv_f64 (Float 0.5) (Float (2 ^ 1023)) (Float 0) (Float 70) = NotANumber"
    unfolding put_delta_iv_f64_def offset_at_the_money ovf by simp
  from round64_2_1023 round64_70 ovf nan show ?thesis
    by (intro conjI)
qed

section \<open>Symmetry of the evaluator, in binary64\<close>

lemma zero_times_uminus: "Float 0 * (- x) = Float 0 * x"
  by (cases x) (simp_all add: round64_zero)

lemma square64_uminus: "square64 (- x) = square64 x"
  by (cases x) simp_all

text \<open>
  C9, as the notebook has it. With a risk reversal of 0 the evaluator gives the same
  value at two deltas \<open>p\<close> and \<open>q\<close> whenever their offsets from 0.5, as float64
  computes them, are exact opposites: \<open>q - 0.5 = - (p - 0.5)\<close>; this for every \<open>fly\<close> and
  \<open>atm\<close>.
\<close>

theorem put_delta_iv_f64_symmetric:
  assumes "q - Float 0.50 = - (p - Float 0.50)"
  shows "put_delta_iv_f64 p (Float 0) fly atm = put_delta_iv_f64 q (Float 0) fly atm"
proof -
  have z: "Float 2 * Float 0 = Float 0"
    by (simp add: round64_zero)
  show ?thesis
    unfolding put_delta_iv_f64_def assms z zero_times_uminus square64_uminus ..
qed

lemma offset_075: "Float 0.75 - Float 0.50 = Float 0.25"
  by (simp add: minus_f64_def round64_eval [where e = "- 2"] pow2_def round_half_even_def)

lemma offset_025: "Float 0.25 - Float 0.50 = Float (- 0.25)"
  by (simp add: minus_f64_def round64_eval [where e = "- 2"] pow2_def round_half_even_def)

text \<open>C9, witness: the deltas 0.75 and 0.25, whose offsets are 0.25 and -0.25.\<close>

theorem put_delta_iv_f64_symmetric_witness:
  "Float 0.25 - Float 0.50 = - (Float 0.75 - Float 0.50) \<and>
   put_delta_iv_f64 (Float 0.75) (Float 0) (Float 3) (Float 70) =
   put_delta_iv_f64 (Float 0.25) (Float 0) (Float 3) (Float 70)"
  using put_delta_iv_f64_symmetric [of "Float 0.25" "Float 0.75" "Float 3" "Float 70"]
  unfolding offset_075 offset_025 by simp

text \<open>
  The offset d = 0.3, step by step: the float64 nearest to 0.3, the deltas 0.5 + d and
  0.5 - d, their offsets from 0.5, the squares, the products with 16 * fly for fly = 1,
  and the sums with atm = 0.
\<close>

lemma literal_03: "round64 0.3 = Float (5404319552844595 / 2 ^ 54)"
  by (simp add: round64_eval [where e = "- 2"] pow2_def round_half_even_def)

lemma delta_08: "Float 0.5 + Float (5404319552844595 / 2 ^ 54) = Float (3602879701896397 / 2 ^ 52)"
  by (simp add: round64_eval [where e = "- 1"] pow2_def round_half_even_def)

lemma delta_02: "Float 0.5 - Float (5404319552844595 / 2 ^ 54) = Float (3602879701896397 / 2 ^ 54)"
  by (simp add: minus_f64_def round64_eval [where e = "- 3"] pow2_def round_half_even_def)

lemma offset_08:
  "Float (3602879701896397 / 2 ^ 52) - Float 0.50 = Float (1351079888211149 / 2 ^ 52)"
  by (simp add: minus_f64_def round64_eval [where e = "- 2"] pow2_def round_half_even_def)

lemma offset_02:
  "Float (3602879701896397 / 2 ^ 54) - Float 0.50 = Float (- (5404319552844595 / 2 ^ 54))"
  by (simp add: minus_f64_def round64_eval [where e = "- 2"] pow2_def round_half_even_def)

lemma square_08:
  "square64 (Float (1351079888211149 / 2 ^ 52)) = Float (1621295865853379 / 2 ^ 54)"
  by (simp add: round64_eval [where e = "- 4"] pow2_def round_half_even_def)

lemma square_02:
  "square64 (Float (- (5404319552844595 / 2 ^ 54))) = Float (3242591731706757 / 2 ^ 55)"
  by (simp add: round64_eval [where e = "- 4"] pow2_def round_half_even_def)

lemma wing_08:
  "Float 16 * Float 1 * Float (1621295865853379 / 2 ^ 54) = Float (1621295865853379 / 2 ^ 50)"
  by (simp add: round64_eval [where e = 4] round64_eval [where e = 0] pow2_def
      round_half_even_def)

lemma wing_02:
  "Float 16 * Float 1 * Float (3242591731706757 / 2 ^ 55) = Float (3242591731706757 / 2 ^ 51)"
  by (simp add: round64_eval [where e = 4] round64_eval [where e = 0] pow2_def
      round_half_even_def)

lemma sum_08:
  "Float 0 + Float 0 + Float (1621295865853379 / 2 ^ 50) = Float (1621295865853379 / 2 ^ 50)"
  by (simp add: round64_zero round64_eval [where e = 0] pow2_def round_half_even_def)

lemma sum_02:
  "Float 0 + Float 0 + Float (3242591731706757 / 2 ^ 51) = Float (3242591731706757 / 2 ^ 51)"
  by (simp add: round64_zero round64_eval [where e = 0] pow2_def round_half_even_def)

text \<open>
  C9, counterexample: risk reversal 0, butterfly 1, at-the-money volatility 0 and the
  offset d = 0.3. The deltas 0.5 + d and 0.5 - d are 0.8 and 0.2, both in (0,1); the
  evaluator returns 1.4400000000000004 at the first and 1.44 at the second.
\<close>

theorem put_delta_iv_f64_asymmetric_counterexample:
  "round64 0.3 = Float (5404319552844595 / 2 ^ 54) \<and>
   put_delta_iv_f64 (Float 0.5 + round64 0.3) (Float 0) (Float 1) (Float 0)
     = Float (1621295865853379 / 2 ^ 50) \<and>
   put_delta_iv_f64 (Float 0.5 - round64 0.3) (Float 0) (Float 1) (Float 0)
     = Float (3242591731706757 / 2 ^ 51) \<and>
   put_delta_iv_f64 (Float 0.5 + round64 0.3) (Float 0) (Float 1) (Float 0)
     \<noteq> put_delta_iv_f64 (Float 0.5 - round64 0.3) (Float 0) (Float 1) (Float 0)"
proof -
  have z: "Float 2 * Float 0 = Float 0" "Float 0 * Float (1351079888211149 / 2 ^ 52) = Float 0"
    "Float 0 * Float (- (5404319552844595 / 2 ^ 54)) = Float 0"
    by (simp_all add: round64_zero)
  have u: "put_delta_iv_f64 (Float 0.5 + Float (5404319552844595 / 2 ^ 54)) (Float 0) (Float 1)
      (Float 0) = Float (1621295865853379 / 2 ^ 50)"
    unfolding put_delta_iv_f64_def delta_08 offset_08 square_08 z wing_08 sum_08 ..
  have l: "put_delta_iv_f64 (Float 0.5 - Float (5404319552844595 / 2 ^ 54)) (Float 0) (Float 1)
      (Float 0) = Float (3242591731706757 / 2 ^ 51)"
    unfolding put_delta_iv_f64_def delta_02 offset_02 square_02 z wing_02 sum_02 ..
  show ?thesis
    unfolding literal_03 u l by simp
qed

section \<open>Sampling the curve\<close>

lemma delta_grid_eq: "delta_grid = map (\<lambda>i. (real i + 1) / 100) [0..<99]"
proof -
  have "nat \<lceil>(1 - 0.01) / (0.01::real)\<rceil> = 99"
    by simp
  then show ?thesis
    unfolding delta_grid_def np_arange_def by (simp add: field_simps)
qed

lemma length_delta_grid: "length delta_grid = 99"
  by (simp add: delta_grid_eq)

lemma sorted_delta_grid: "sorted_wrt (<) delta_grid"
  unfolding delta_grid_eq sorted_wrt_map
  by (rule sorted_wrt_mono_rel [OF _ sorted_wrt_upt]) simp

lemma length_put_delta_raw: "length (put_delta_raw rr fly atm) = 99"
  by (simp add: put_delta_raw_def length_delta_grid)

lemma length_put_delta_aprx: "length (put_delta_aprx rr fly atm) = 99"
  by (simp add: put_delta_aprx_def length_put_delta_raw)

lemma isnan_iff: "isnan x \<longleftrightarrow> x = NaN"
  by (cases x) simp_all

lemma put_delta_raw_NaN:
  assumes "isnan rr \<or> isnan fly \<or> isnan atm"
  shows "put_delta_raw rr fly atm = replicate 99 NaN"
proof -
  have "put_delta_raw rr fly atm = map (\<lambda>i. NaN) delta_grid"
    unfolding put_delta_raw_def using assms by (simp add: put_delta_iv_NaN)
  then show ?thesis
    by (simp add: map_replicate_const length_delta_grid)
qed

lemma put_delta_aprx_NaN:
  assumes "isnan rr \<or> isnan fly \<or> isnan atm"
  shows "put_delta_aprx rr fly atm = replicate 99 (Fin 0)"
  by (simp add: put_delta_aprx_def put_delta_raw_NaN [OF assms] zero_pyfloat_def)

lemma NaN_notin_put_delta_aprx: "NaN \<notin> set (put_delta_aprx rr fly atm)"
  by (auto simp: put_delta_aprx_def zero_pyfloat_def isnan_iff)

lemma put_delta_aprx_case:
  "put_delta_aprx rr fly atm =
     map (\<lambda>x. case x of NaN \<Rightarrow> Fin 0 | Fin v \<Rightarrow> Fin v) (put_delta_raw rr fly atm)"
  unfolding put_delta_aprx_def
  by (rule map_cong) (auto simp: zero_pyfloat_def split: pyfloat.splits)

lemma put_delta_aprx_idem:
  "map (\<lambda>x. if isnan x then 0 else x) (put_delta_aprx rr fly atm) = put_delta_aprx rr fly atm"
  by (simp add: put_delta_aprx_def zero_pyfloat_def)

text \<open>
  C7. Sampling the curve over delta = 0.01, 0.02, ..., 0.99 yields exactly 99 points
  (delta, iv); the deltas are the hundredths 1/100 to 99/100 in strictly increasing
  order; the volatilities are \<open>put_delta_aprx\<close> of the three parameters and of nothing
  else, so two runs with the same parameters give the same sequence; and running the
  replacement of not-a-number again leaves the sequence as it is.
\<close>

theorem smile_curve_sampling:
  "length (smile_curve rr fly atm) = 99 \<and>
   map fst (smile_curve rr fly atm) = map (\<lambda>i. (real i + 1) / 100) [0..<99] \<and>
   sorted_wrt (<) (map fst (smile_curve rr fly atm)) \<and>
   map snd (smile_curve rr fly atm) = put_delta_aprx rr fly atm \<and>
   map (\<lambda>x. if isnan x then 0 else x) (put_delta_aprx rr fly atm) = put_delta_aprx rr fly atm"
proof -
  have len: "length delta_grid = length (put_delta_aprx rr fly atm)"
    by (simp add: length_delta_grid length_put_delta_aprx)
  have deltas: "map fst (smile_curve rr fly atm) = delta_grid"
    unfolding smile_curve_def using len by (rule map_fst_zip)
  have ivs: "map snd (smile_curve rr fly atm) = put_delta_aprx rr fly atm"
    unfolding smile_curve_def using len by (rule map_snd_zip)
  have "length (smile_curve rr fly atm) = 99"
    by (simp add: smile_curve_def length_delta_grid length_put_delta_aprx)
  with deltas ivs show ?thesis
    by (simp add: sorted_delta_grid put_delta_aprx_idem) (simp add: delta_grid_eq)
qed

text \<open>
  C3, as the notebook has it. A sample that is not-a-number is replaced by 0 in the
  output sequence, and every other sample is kept: no not-a-number reaches the output
  and no error is raised. When a parameter is not-a-number, all 99 samples are
  not-a-number and all 99 outputs are 0.
\<close>

theorem nan_samples_become_zero:
  "put_delta_aprx rr fly atm =
     map (\<lambda>x. case x of NaN \<Rightarrow> Fin 0 | Fin v \<Rightarrow> Fin v) (put_delta_raw rr fly atm) \<and>
   NaN \<notin> set (put_delta_aprx rr fly atm) \<and>
   (isnan rr \<or> isnan fly \<or> isnan atm \<longrightarrow>
      put_delta_raw rr fly atm = replicate 99 NaN \<and>
      put_delta_aprx rr fly atm = replicate 99 (Fin 0))"
  using put_delta_aprx_case [of rr fly atm] NaN_notin_put_delta_aprx [of rr fly atm]
    put_delta_raw_NaN [of rr fly atm] put_delta_aprx_NaN [of rr fly atm]
  by blast

text \<open>C3, witness: a risk reversal that is not-a-number, butterfly 1, at-the-money 70.\<close>

theorem nan_samples_become_zero_witness:
  "isnan NaN \<and> put_delta_aprx NaN (Fin 1) (Fin 70) = replicate 99 (Fin 0)"
  using nan_samples_become_zero [of NaN "Fin 1" "Fin 70"] by simp

section \<open>Smile parameters\<close>


section \<open>Delta buckets\<close>

lemma round_half_even_tie:
  "round_half_even (of_int k + 1 / 2) = (if even k then k else k + 1)"
proof -
  have "\<lfloor>of_int k + (1 / 2 :: real)\<rfloor> = k"
    by linarith
  then show ?thesis
    by (simp add: round_half_even_def)
qed

lemma np_round_tens_tie:
  "np_round (of_int (10 * k + 5)) (- 1) = of_int (10 * (if even k then k else k + 1))"
proof -
  have h: "(10 * real_of_int k + 5) / 10 = real_of_int k + 1 / 2"
    by simp
  show ?thesis
    by (simp add: np_round_def h round_half_even_tie)
qed

lemma np_round_25: "np_round 25 (- 1) = 20"
  using np_round_tens_tie [of 2] by simp

lemma np_round_35: "np_round 35 (- 1) = 40"
  using np_round_tens_tie [of 3] by simp

lemma calls_single:
  "map delta (calls [q\<lparr>option_type := ''call'', delta := x\<rparr>]) = [np_round (x * 100) (- 1)]"
  by (simp add: calls_def)

lemma puts_single:
  "map delta (puts [q\<lparr>option_type := ''put'', delta := x\<rparr>]) = [np_round (\<bar>x\<bar> * 100) (- 1)]"
  by (simp add: puts_def)

text \<open>
  C10. Delta bucketing resolves exact ties half-to-even. A call with delta 0.25 and a
  put with delta -0.25 both get bucket 20, not 30, and a call with delta 0.35 gets
  bucket 40. In general a delta whose absolute value times 100 is the odd multiple
  \<open>10 * n + 5\<close> of 5 gets \<open>10 * n\<close> when \<open>n\<close> is even and \<open>10 * (n + 1)\<close> when \<open>n\<close> is odd,
  on the call side and on the put side alike.
\<close>

theorem delta_bucket_ties:
  "map delta (calls [q\<lparr>option_type := ''call'', delta := 0.25\<rparr>]) = [20] \<and>
   map delta (puts [q\<lparr>option_type := ''put'', delta := - 0.25\<rparr>]) = [20] \<and>
   map delta (calls [q\<lparr>option_type := ''call'', delta := 0.35\<rparr>]) = [40] \<and>
   map delta (calls [q\<lparr>option_type := ''call'', delta := of_nat (10 * n + 5) / 100\<rparr>])
     = [of_nat (10 * (if even n then n else n + 1))] \<and>
   map delta (puts [q\<lparr>option_type := ''put'', delta := - of_nat (10 * n + 5) / 100\<rparr>])
     = [of_nat (10 * (if even n then n else n + 1))]"
proof -
  have tie: "np_round (real (10 * n + 5)) (- 1) = real (10 * (if even n then n else n + 1))"
    using np_round_tens_tie [of "int n"] by simp
  have scale: "real (10 * n + 5) / 100 * 100 = real (10 * n + 5)"
    by simp
  have pos: "\<bar>- real (10 * n + 5) / 100\<bar> = real (10 * n + 5) / 100"
    by simp
  have "np_round (0.25 * 100) (- 1) = 20" "np_round (\<bar>- 0.25\<bar> * 100) (- 1) = 20"
    "np_round (0.35 * 100) (- 1) = 40"
    by (simp_all add: np_round_25 np_round_35)
  then show ?thesis
    unfolding calls_single puts_single by (simp only: pos scale tie simp_thms)
qed

section \<open>Selecting the maturity\<close>

lemma enumerates_remdups: "enumerates remdups column"
  by (simp add: enumerates_def)

lemma select_maturity_Nil:
  assumes "enumerates list_set (map expiration_timestamp quotes)"
  shows "quotes = [] \<Longrightarrow> select_maturity list_set quotes = Inl IndexError"
  using assms by (simp add: select_maturity_def maturities_def enumerates_def)

lemma select_maturity_Cons:
  assumes "enumerates list_set (map expiration_timestamp quotes)" and "quotes \<noteq> []"
  shows "\<exists>m df. select_maturity list_set quotes = Inr df \<and> df \<noteq> []
     \<and> df = filter (\<lambda>q. expiration_timestamp q = m) quotes
     \<and> m \<in> set (map expiration_timestamp quotes)"
proof (cases "maturities list_set quotes")
  case Nil
  with assms have "set (map expiration_timestamp quotes) = {}"
    by (simp add: maturities_def enumerates_def)
  with assms(2) show ?thesis by simp
next
  case (Cons m ms)
  with assms(1) have m: "m \<in> set (map expiration_timestamp quotes)"
    by (auto simp: maturities_def enumerates_def)
  then obtain q where "q \<in> set quotes" "expiration_timestamp q = m"
    by auto
  then have "filter (\<lambda>q. expiration_timestamp q = m) quotes \<noteq> []"
    by (auto simp: filter_empty_conv)
  with Cons m show ?thesis
    unfolding select_maturity_def by (intro exI [of _ m]) simp
qed

text \<open>
  C2, at the snapshot \<open>two_maturities\<close>, whose first row expires on 3 April 2020 and
  whose second row expires on 27 March 2020. CPython enumerates the set of the two
  timestamps with the April one first, so the frame is restricted to the April
  maturity, while the minimum of the timestamps is the March one.
\<close>

theorem maturity_not_earliest:
  "enumerates cpython_two_maturities (map expiration_timestamp two_maturities) \<and>
   quote_normalizer cpython_two_maturities two_maturities = Inr [with_mid_iv call_apr] \<and>
   expiration_timestamp call_apr = 1585900800000 \<and>
   Min (set (map expiration_timestamp two_maturities)) = 1585296000000"
  by (simp add: enumerates_def cpython_two_maturities_def two_maturities_def
      quote_normalizer_def select_maturity_def maturities_def call_apr_def call_6500_def
      insert_commute)

text \<open>
  C4, as the notebook has it. Whatever order the set is enumerated in: on an empty
  frame the cell fails, with \<^verbatim>\<open>IndexError\<close> (from \<^verbatim>\<open>maturities[0]\<close>); on a frame that
  is not empty it does not fail, and the frame it leaves is not empty, the selected
  maturity being one of the frame's own.
\<close>

theorem quote_normalizer_failure:
  assumes "enumerates list_set (map expiration_timestamp quotes)"
  shows "case quote_normalizer list_set quotes of
           Inl e \<Rightarrow> quotes = [] \<and> e = IndexError
         | Inr df \<Rightarrow> quotes \<noteq> [] \<and> df \<noteq> []"
proof (cases "quotes = []")
  case True
  then show ?thesis
    using select_maturity_Nil [OF assms] by (simp add: quote_normalizer_def)
next
  case False
  from select_maturity_Cons [OF assms False] show ?thesis
    using False by (auto simp: quote_normalizer_def)
qed

text \<open>C4, witness: the empty frame and the frame \<open>two_maturities\<close>.\<close>

theorem quote_normalizer_failure_witness:
  "enumerates remdups (map expiration_timestamp []) \<and>
   quote_normalizer remdups [] = Inl IndexError \<and>
   enumerates remdups (map expiration_timestamp two_maturities) \<and>
   (case quote_normalizer remdups two_maturities of
      Inl e \<Rightarrow> two_maturities = [] \<and> e = IndexError
    | Inr df \<Rightarrow> two_maturities \<noteq> [] \<and> df \<noteq> [])"
  using quote_normalizer_failure [of remdups "[]"]
    quote_normalizer_failure [of remdups two_maturities]
  by (simp add: enumerates_remdups split: sum.splits)

text \<open>
  C4, counterexample: on the empty frame the failure is \<^verbatim>\<open>IndexError\<close>, not
  \<open>EmptyInputError\<close>.
\<close>

theorem quote_normalizer_empty_counterexample:
  "quote_normalizer remdups [] = Inl IndexError \<and>
   quote_normalizer remdups [] \<noteq> Inl (Raised EmptyInputError)"
  by (simp add: quote_normalizer_def select_maturity_def maturities_def)

section \<open>The at-the-money marker\<close>



lemmas snap = snapshot_def call_6500_def put_6520_def with_mid_iv_def quote.defs mid_quote.defs

lemma round_half_even_snapshot: "round_half_even (32552 / 5) = 6510"
  by (simp add: round_half_even_def)

lemma atm_iv_snapshot: "atm_iv (map with_mid_iv snapshot) = Inr (Fin 75)"
  by (simp add: atm_iv_def avg_price_def py_round_def pd_mean_def snap round_half_even_snapshot)




section \<open>Not-a-number through the notebook\<close>

lemma put_25D_iv_snapshot: "put_25D_iv (map with_mid_iv snapshot) = NaN"
  by (simp add: put_25D_iv_def puts_def pd_mean_def snap np_round_def round_half_even_def)

lemma quote_normalizer_snapshot:
  "quote_normalizer remdups snapshot = Inr (map with_mid_iv snapshot)"
  by (simp add: quote_normalizer_def select_maturity_def maturities_def snapshot_def
      call_6500_def put_6520_def)

lemma rr25D_iv_NaN: "isnan (rr25D_iv c NaN)"
  by (cases c) (simp_all add: rr25D_iv_def)

text \<open>
  C3, counterexample: \<open>snapshot\<close> has no put in the buckets 20 and 30, so the 25-delta
  put marker is not-a-number, every sample of the curve is not-a-number, and the
  notebook returns 99 zeros without an error.
\<close>

theorem nan_silently_zero_counterexample:
  "put_25D_iv (map with_mid_iv snapshot) = NaN \<and>
   put_delta_raw
     (rr25D_iv (call_25D_iv (map with_mid_iv snapshot)) (put_25D_iv (map with_mid_iv snapshot)))
     (fly25D_iv (call_25D_iv (map with_mid_iv snapshot)) (put_25D_iv (map with_mid_iv snapshot))
        (Fin 75))
     (Fin 75) = replicate 99 NaN \<and>
   notebook remdups snapshot = Inr (replicate 99 (Fin 0))"
  by (simp add: notebook_def quote_normalizer_snapshot atm_iv_snapshot put_25D_iv_snapshot
      put_delta_aprx_NaN put_delta_raw_NaN rr25D_iv_NaN)

end
